theory Spec2Isabelle
  imports Main
begin

section \<open>Python strings and exceptions\<close>

text \<open>
  A Python \<open>str\<close> is a sequence of Unicode code points, so it is modelled as a list of
  naturals. ASCII text is written through \<open>ascii\<close>; the Hangul and CJK characters of
  the gender tokens appear as their code points.
\<close>

type_synonym pystr = "nat list"

definition ascii :: "string \<Rightarrow> pystr" where
  "ascii s = map of_char s"

text \<open>
  The exceptions the modules raise or catch. A raise is the \<open>Inl\<close> branch of a
  result; the argument is the message. \<open>OtherException\<close> stands for any other class
  an engine may raise (class name and message); \<open>except TypeError\<close> is the test
  \<open>is_TypeError\<close>.
\<close>

datatype exn =
    ValueError pystr
  | is_TypeError: TypeError pystr
  | RuntimeError pystr
  | OtherException string pystr

text \<open>
  \<open>str.isspace\<close> of one code point (Unicode 14, as CPython 3.11 ships it):
  the characters that \<open>str.strip()\<close> removes.
\<close>

definition py_isspace :: "nat \<Rightarrow> bool" where
  "py_isspace c = (c \<in> set [9, 10, 11, 12, 13, 28, 29, 30, 31, 32, 133, 160, 5760,
     8192, 8193, 8194, 8195, 8196, 8197, 8198, 8199, 8200, 8201, 8202,
     8232, 8233, 8239, 8287, 12288])"

definition py_lstrip :: "pystr \<Rightarrow> pystr" where
  "py_lstrip s = dropWhile py_isspace s"

definition py_rstrip :: "pystr \<Rightarrow> pystr" where
  "py_rstrip s = rev (dropWhile py_isspace (rev s))"

definition py_strip :: "pystr \<Rightarrow> pystr" where
  "py_strip s = py_rstrip (py_lstrip s)"

text \<open>\<open>str.split(sep)\<close> for a one-character separator: always at least one part.\<close>

fun py_split :: "nat \<Rightarrow> pystr \<Rightarrow> pystr list" where
  "py_split sep [] = [[]]"
| "py_split sep (c # cs) =
     (if c = sep then [] # py_split sep cs
      else (case py_split sep cs of
              [] \<Rightarrow> [[c]]
            | p # ps \<Rightarrow> (c # p) # ps))"

subsection \<open>\<open>int(str)\<close>\<close>

text \<open>
  \<open>int\<close> on a string, base ten, as CPython parses it: white space around the number
  is skipped, one sign is allowed, the digits may be separated by single underscores,
  and every Unicode decimal digit counts (the decimal digits come in runs of ten; the
  list holds the zero of each run). Inside \<open>int\<close>, the ASCII separators 28 to 31
  are not white space, although \<open>str.strip\<close> removes them. CPython's configurable
  limit on the number of digits (4300 by default) is left out: it only turns more
  inputs into a \<open>ValueError\<close>.
\<close>

definition decimal_zeros :: "nat list" where
  "decimal_zeros = [48, 1632, 1776, 1984, 2406, 2534, 2662, 2790, 2918, 3046, 3174,
     3302, 3430, 3558, 3664, 3792, 3872, 4160, 4240, 6112, 6160, 6470, 6608, 6784,
     6800, 6992, 7088, 7232, 7248, 42528, 43216, 43264, 43472, 43504, 43600, 44016,
     65296, 66720, 68912, 69734, 69872, 69942, 70096, 70384, 70736, 70864, 71248,
     71360, 71472, 71904, 72016, 72784, 73040, 73120, 92768, 92864, 93008, 120782,
     120792, 120802, 120812, 120822, 123200, 123632, 125264, 130032]"

definition digit_value :: "nat \<Rightarrow> nat option" where
  "digit_value c =
     (case find (\<lambda>z. z \<le> c \<and> c < z + 10) decimal_zeros of
        None \<Rightarrow> None
      | Some z \<Rightarrow> Some (c - z))"

definition int_isspace :: "nat \<Rightarrow> bool" where
  "int_isspace c = (c \<in> set [9, 10, 11, 12, 13, 32] \<or> (127 \<le> c \<and> py_isspace c))"

fun digits_from :: "nat \<Rightarrow> pystr \<Rightarrow> nat option" where
  "digits_from acc [] = Some acc"
| "digits_from acc [c] =
     (case digit_value c of None \<Rightarrow> None | Some v \<Rightarrow> Some (acc * 10 + v))"
| "digits_from acc (c # d # ds) =
     (if c = 95 then
        (case digit_value d of
           None \<Rightarrow> None
         | Some v \<Rightarrow> digits_from (acc * 10 + v) ds)
      else
        (case digit_value c of
           None \<Rightarrow> None
         | Some v \<Rightarrow> digits_from (acc * 10 + v) (d # ds)))"

definition digits_value :: "pystr \<Rightarrow> nat option" where
  "digits_value s =
     (case s of
        [] \<Rightarrow> None
      | c # cs \<Rightarrow> (case digit_value c of None \<Rightarrow> None | Some v \<Rightarrow> digits_from v cs))"

definition py_int :: "pystr \<Rightarrow> int option" where
  "py_int s =
     (let t = dropWhile int_isspace s;
          neg = (case t of [] \<Rightarrow> False | c # r \<Rightarrow> c = 45);
          u = (case t of [] \<Rightarrow> [] | c # r \<Rightarrow> if c = 43 \<or> c = 45 then r else t);
          body = rev (dropWhile int_isspace (rev u))
      in case digits_value body of
           None \<Rightarrow> None
         | Some n \<Rightarrow> Some (if neg then - int n else int n))"

section \<open>time.py\<close>

record ClockTime =
  hour :: int
  minute :: int

text \<open>
  \<open>parse_hhmm\<close>: the argument is \<open>None\<close> or a string; every \<open>raise\<close> of the source
  is an \<open>Inl\<close>, in the source's order.
\<close>

definition parse_hhmm :: "pystr option \<Rightarrow> exn + ClockTime" where
  "parse_hhmm value =
     (case value of
        None \<Rightarrow> Inl (ValueError (ascii ''time is required''))
      | Some v \<Rightarrow>
          (let text = py_strip v;
               parts = py_split 58 text
           in if length parts \<noteq> 2 then Inl (ValueError (ascii ''time must be in HH:MM format''))
              else
                (case py_int (parts ! 0) of
                   None \<Rightarrow> Inl (ValueError (ascii ''time must be numeric HH:MM''))
                 | Some h \<Rightarrow>
                     (case py_int (parts ! 1) of
                        None \<Rightarrow> Inl (ValueError (ascii ''time must be numeric HH:MM''))
                      | Some m \<Rightarrow>
                          if \<not> (0 \<le> h \<and> h \<le> 23) then Inl (ValueError (ascii ''hour must be 0..23''))
                          else if \<not> (0 \<le> m \<and> m \<le> 59) then Inl (ValueError (ascii ''minute must be 0..59''))
                          else Inr \<lparr>hour = h, minute = m\<rparr>))))"

text \<open>
  \<open>time_to_index\<close>: Python's \<open>//\<close> is floor division, which is \<open>div\<close> on \<open>int\<close>.
\<close>

definition time_to_index :: "int \<Rightarrow> int \<Rightarrow> exn + int" where
  "time_to_index h m =
     (if \<not> (0 \<le> h \<and> h \<le> 23) then Inl (ValueError (ascii ''hour must be 0..23''))
      else if \<not> (0 \<le> m \<and> m \<le> 59) then Inl (ValueError (ascii ''minute must be 0..59''))
      else if h = 23 then Inr 0
      else if h = 0 then Inr 12
      else Inr (((h - 1) div 2) + 1))"

definition hhmm_to_index :: "pystr option \<Rightarrow> exn + int" where
  "hhmm_to_index value =
     (case parse_hhmm value of
        Inl e \<Rightarrow> Inl e
      | Inr t \<Rightarrow> time_to_index (hour t) (minute t))"

section \<open>ziwei.py\<close>

text \<open>
  \<open>str.lower()\<close>: the ASCII capitals are folded. Python also folds the cased letters
  beyond ASCII; none of their images yields a string of the token sets below (the
  tokens that are not ASCII are Hangul and CJK, which have no case), so those letters
  are left as they are.
\<close>

definition lower_cp :: "nat \<Rightarrow> nat" where
  "lower_cp c = (if 65 \<le> c \<and> c \<le> 90 then c + 32 else c)"

definition py_lower :: "pystr \<Rightarrow> pystr" where
  "py_lower s = map lower_cp s"

text \<open>
  The two token sets of \<open>normalize_gender\<close>, in the order of the source. The tokens
  beyond ASCII, as code points: U+B0A8 (45224), U+B0A8 U+C790 (51088),
  U+B0A8 U+C131 (49457), U+7537 (30007, the male token of the engine);
  U+C5EC (50668), U+C5EC U+C790, U+C5EC U+C131, U+5973 (22899, the female token).
\<close>

definition male :: "pystr list" where
  "male = [ascii ''m'', ascii ''male'', ascii ''man'',
           [45224], [45224, 51088], [45224, 49457], [30007]]"

definition female :: "pystr list" where
  "female = [ascii ''f'', ascii ''female'', ascii ''woman'',
             [50668], [50668, 51088], [50668, 49457], [22899]]"

text \<open>The message of the last \<open>raise\<close>; it ends in U+B0A8 \<open>/\<close> U+C5EC.\<close>

definition gender_message :: pystr where
  "gender_message = ascii ''gender must be one of: male/female, '' @ [45224, 47, 50668]"

definition normalize_gender :: "pystr option \<Rightarrow> exn + pystr" where
  "normalize_gender value =
     (case value of
        None \<Rightarrow> Inl (ValueError (ascii ''gender is required''))
      | Some s \<Rightarrow>
          (let v = py_lower (py_strip s)
           in if v \<in> set male then Inr [30007]
              else if v \<in> set female then Inr [22899]
              else Inl (ValueError gender_message)))"

subsection \<open>The adaptive call\<close>

text \<open>
  The values passed to the engine are strings, booleans and integers. The keyword
  arguments are a Python \<open>dict\<close>: an association list in insertion order.
\<close>

datatype pyval = PNone | PBool bool | PInt int | PStr pystr

type_synonym kwargs = "(string \<times> pyval) list"

text \<open>
  An entry point is any Python callable: it may keep state between calls, so it takes
  a state and returns the next one with its outcome.
\<close>

type_synonym ('s, 'r) entry_point = "'s \<Rightarrow> pyval list \<Rightarrow> kwargs \<Rightarrow> (exn + 'r) \<times> 's"

definition optional_keys :: "string list" where
  "optional_keys = [''language'', ''fix_leap'', ''fixLeap'', ''is_leap_month'', ''isLeapMonth'']"

text \<open>\<open>kw2 = dict(kwargs); kw2.pop(key, None)\<close>\<close>

definition pop_key :: "string \<Rightarrow> kwargs \<Rightarrow> kwargs" where
  "pop_key key kw = filter (\<lambda>kv. fst kv \<noteq> key) kw"

text \<open>
  The \<open>for key in optional_keys\<close> loop of \<open>_call_astro\<close>. The result is \<open>Some\<close> when
  the loop is left by a \<open>return\<close> or by an exception that is not a \<open>TypeError\<close>,
  and \<open>None\<close> when it runs to its end.
\<close>

fun retry_loop ::
  "('s, 'r) entry_point \<Rightarrow> pyval list \<Rightarrow> kwargs \<Rightarrow> string list \<Rightarrow> 's \<Rightarrow> (exn + 'r) option \<times> 's"
where
  "retry_loop fn args kw [] s = (None, s)"
| "retry_loop fn args kw (key # keys) s =
     (if key \<in> set (map fst kw) then
        (case fn s args (pop_key key kw) of
           (Inr r, s') \<Rightarrow> (Some (Inr r), s')
         | (Inl e, s') \<Rightarrow>
             if is_TypeError e then retry_loop fn args kw keys s'
             else (Some (Inl e), s'))
      else retry_loop fn args kw keys s)"

text \<open>\<open>_call_astro\<close> (an Isabelle name cannot start with an underscore).\<close>

definition call_astro ::
  "('s, 'r) entry_point \<Rightarrow> pyval list \<Rightarrow> kwargs \<Rightarrow> 's \<Rightarrow> (exn + 'r) \<times> 's"
where
  "call_astro fn args kw s =
     (case fn s args kw of
        (Inr r, s1) \<Rightarrow> (Inr r, s1)
      | (Inl exc, s1) \<Rightarrow>
          if is_TypeError exc then
            (case retry_loop fn args kw optional_keys s1 of
               (Some res, s2) \<Rightarrow> (res, s2)
             | (None, s2) \<Rightarrow>
                 (case fn s2 args [] of
                    (Inr r, s3) \<Rightarrow> (Inr r, s3)
                  | (Inl e, s3) \<Rightarrow>
                      if is_TypeError e then (Inl exc, s3) else (Inl e, s3)))
          else (Inl exc, s1))"

text \<open>
  To observe the calls that \<open>_call_astro\<close> makes, an entry point is wrapped so that it
  records the arguments of every call, as a test stub does.
\<close>

definition recording ::
  "('s, 'r) entry_point \<Rightarrow> ('s \<times> (pyval list \<times> kwargs) list, 'r) entry_point"
where
  "recording fn = (\<lambda>sl args kw.
     (fst (fn (fst sl) args kw), (snd (fn (fst sl) args kw), snd sl @ [(args, kw)])))"

definition attempts ::
  "('s, 'r) entry_point \<Rightarrow> pyval list \<Rightarrow> kwargs \<Rightarrow> 's \<Rightarrow> (pyval list \<times> kwargs) list"
where
  "attempts fn args kw s = snd (snd (call_astro (recording fn) args kw (s, [])))"

subsection \<open>\<open>create_chart\<close>\<close>

record ChartRequest =
  calendar :: pystr
  date :: pystr
  time_index :: int
  gender :: "pystr option"
  language :: pystr
  is_leap_month :: bool
  fix_leap :: bool

text \<open>
  The engine module \<open>iztro_py.astro\<close> is not part of the repository: it is a parameter,
  a record of the entry points it may have under either name (\<open>None\<close> when the
  attribute is missing); the module itself is \<open>None\<close> when the import fails.
\<close>

record ('s, 'r) astro =
  by_solar :: "('s, 'r) entry_point option"
  bySolar :: "('s, 'r) entry_point option"
  by_lunar :: "('s, 'r) entry_point option"
  byLunar :: "('s, 'r) entry_point option"

definition solar_kwargs :: "'a ChartRequest_scheme \<Rightarrow> kwargs" where
  "solar_kwargs req =
     [(''language'', PStr (language req)),
      (''fix_leap'', PBool (fix_leap req)),
      (''fixLeap'', PBool (fix_leap req))]"

definition lunar_kwargs :: "'a ChartRequest_scheme \<Rightarrow> kwargs" where
  "lunar_kwargs req =
     [(''language'', PStr (language req)),
      (''is_leap_month'', PBool (is_leap_month req)),
      (''isLeapMonth'', PBool (is_leap_month req)),
      (''fix_leap'', PBool (fix_leap req)),
      (''fixLeap'', PBool (fix_leap req))]"

definition create_chart ::
  "('s, 'r) astro option \<Rightarrow> ChartRequest \<Rightarrow> 's \<Rightarrow> (exn + 'r) \<times> 's"
where
  "create_chart module req s =
     (if 0 \<le> time_index req \<and> time_index req \<le> 12 then
        (case normalize_gender (gender req) of
           Inl e \<Rightarrow> (Inl e, s)
         | Inr g \<Rightarrow>
             (case module of
                None \<Rightarrow> (Inl (RuntimeError (ascii
                  ''Missing dependency: iztro-py. Install with: python -m pip install iztro-py'')), s)
              | Some astro \<Rightarrow>
                  (let solar = (case by_solar astro of Some f \<Rightarrow> Some f | None \<Rightarrow> bySolar astro);
                       lunar = (case by_lunar astro of Some f \<Rightarrow> Some f | None \<Rightarrow> byLunar astro)
                   in if calendar req = ascii ''solar'' then
                        (case solar of
                           None \<Rightarrow> (Inl (RuntimeError (ascii ''iztro-py astro.by_solar() not found'')), s)
                         | Some f \<Rightarrow>
                             call_astro f [PStr (date req), PInt (time_index req), PStr g]
                               (solar_kwargs req) s)
                      else if calendar req = ascii ''lunar'' then
                        (case lunar of
                           None \<Rightarrow> (Inl (RuntimeError (ascii ''iztro-py astro.by_lunar() not found'')), s)
                         | Some f \<Rightarrow>
                             call_astro f [PStr (date req), PInt (time_index req), PStr g]
                               (lunar_kwargs req) s)
                      else (Inl (ValueError (ascii ''unsupported calendar: '' @ calendar req)), s))))
      else (Inl (ValueError (ascii ''timeIndex must be 0..12'')), s))"

section \<open>render.py\<close>

text \<open>Truth value of a Python value, as \<open>if x\<close> tests it.\<close>

fun py_truthy :: "pyval \<Rightarrow> bool" where
  "py_truthy PNone = False"
| "py_truthy (PBool b) = b"
| "py_truthy (PInt i) = (i \<noteq> 0)"
| "py_truthy (PStr s) = (s \<noteq> [])"

text \<open>\<open>str(x)\<close>: a string is itself, the others are printed as Python prints them.\<close>

fun digits_of :: "nat \<Rightarrow> pystr" where
  "digits_of n = (if n < 10 then [48 + n] else digits_of (n div 10) @ [48 + n mod 10])"

declare digits_of.simps [simp del]

fun py_str :: "pyval \<Rightarrow> pystr" where
  "py_str PNone = ascii ''None''"
| "py_str (PBool b) = (if b then ascii ''True'' else ascii ''False'')"
| "py_str (PInt i) = (if i < 0 then 45 # digits_of (nat (- i)) else digits_of (nat i))"
| "py_str (PStr s) = s"

text \<open>\<open>sep.join(parts)\<close>\<close>

fun py_join :: "pystr \<Rightarrow> pystr list \<Rightarrow> pystr" where
  "py_join sep [] = []"
| "py_join sep [x] = x"
| "py_join sep (x # y # ys) = x @ sep @ py_join sep (y # ys)"

text \<open>
  The flags of a palace, as both renderers build them: \<open>body\<close> is appended when the
  body flag is true, then \<open>origin\<close> when the origin flag is true; and the text
  \<open>f" [{' '.join(flags)}]" if flags else ""\<close>.
\<close>

definition palace_flags :: "pyval \<Rightarrow> pyval \<Rightarrow> pystr list" where
  "palace_flags body origin =
     (if py_truthy body then [ascii ''body''] else []) @
     (if py_truthy origin then [ascii ''origin''] else [])"

definition flag_txt :: "pystr list \<Rightarrow> pystr" where
  "flag_txt flags =
     (if flags = [] then [] else ascii '' ['' @ py_join (ascii '' '') flags @ ascii '']'')"

subsection \<open>The palace line of \<open>render_text\<close>\<close>

text \<open>
  A palace entry of the canonical mapping is a \<open>dict\<close> with string keys;
  \<open>p.get(key, default)\<close> is \<open>dict_get\<close>. The line is the one appended first in the
  loop over the palaces of \<open>render_text\<close>.
\<close>

type_synonym pydict = "string \<Rightarrow> pyval option"

definition dict_get :: "pydict \<Rightarrow> string \<Rightarrow> pyval \<Rightarrow> pyval" where
  "dict_get p key dflt = (case p key of None \<Rightarrow> dflt | Some v \<Rightarrow> v)"

definition render_text_palace_line :: "pydict \<Rightarrow> pystr" where
  "render_text_palace_line p =
     (let n = py_strip (py_str (dict_get p ''name'' (PStr [])));
          name = (if n = [] then ascii ''?'' else n);
          hs = py_strip (py_str (dict_get p ''heavenlyStem'' (PStr [])));
          eb = py_strip (py_str (dict_get p ''earthlyBranch'' (PStr [])));
          flags = palace_flags (dict_get p ''isBodyPalace'' PNone)
                    (dict_get p ''isOriginalPalace'' PNone)
      in ascii ''- '' @ name @ ascii '' '' @ hs @ eb @ flag_txt flags)"

subsection \<open>The palace line of \<open>render_chart\<close>\<close>

text \<open>
  A palace of the engine is an object. A translation method is called with the
  language (\<open>Some language\<close>) or with no argument (\<open>None\<close>) and returns a string or
  \<open>None\<close>, or raises; an attribute that is missing or not callable is \<open>None\<close>.
\<close>

type_synonym translate = "pystr option \<Rightarrow> exn + pystr option"

record palace =
  translate_name :: "translate option"
  name :: "pyval option"
  translate_heavenly_stem :: "translate option"
  translate_earthly_branch :: "translate option"
  is_body_palace :: "pyval option"
  is_original_palace :: "pyval option"

text \<open>\<open>_t(obj, method, language)\<close>, given \<open>getattr(obj, method, None)\<close>.\<close>

definition py_t :: "translate option \<Rightarrow> pystr \<Rightarrow> exn + pystr" where
  "py_t method lang =
     (case method of
        None \<Rightarrow> Inr []
      | Some fn \<Rightarrow>
          (case (case fn (Some lang) of
                   Inr v \<Rightarrow> Inr v
                 | Inl e \<Rightarrow> if is_TypeError e then fn None else Inl e) of
             Inl e \<Rightarrow> Inl e
           | Inr None \<Rightarrow> Inr []
           | Inr (Some v) \<Rightarrow> Inr (py_strip v)))"

definition getattr :: "pyval option \<Rightarrow> pyval \<Rightarrow> pyval" where
  "getattr attr dflt = (case attr of None \<Rightarrow> dflt | Some v \<Rightarrow> v)"

definition render_chart_palace_line :: "palace \<Rightarrow> pystr \<Rightarrow> exn + pystr" where
  "render_chart_palace_line p lang =
     (case py_t (translate_name p) lang of
        Inl e \<Rightarrow> Inl e
      | Inr tn \<Rightarrow>
          (let n = py_strip (py_str (getattr (name p) (PStr [])));
               nm = (if tn = [] then (if n = [] then ascii ''?'' else n) else tn)
           in case py_t (translate_heavenly_stem p) lang of
                Inl e \<Rightarrow> Inl e
              | Inr hs \<Rightarrow>
                  (case py_t (translate_earthly_branch p) lang of
                     Inl e \<Rightarrow> Inl e
                   | Inr eb \<Rightarrow>
                       (let flags = palace_flags (getattr (is_body_palace p) (PBool False))
                                      (getattr (is_original_palace p) (PBool False))
                        in Inr (py_rstrip (ascii ''- '' @ nm @ ascii '' '' @ hs @ eb @ flag_txt flags))))))"

text \<open>The palace line of \<open>render_chart\<close> before the flags are appended and the line is stripped.\<close>

definition chart_line_base :: "palace \<Rightarrow> pystr \<Rightarrow> exn + pystr" where
  "chart_line_base p lang =
     (case py_t (translate_name p) lang of
        Inl e \<Rightarrow> Inl e
      | Inr tn \<Rightarrow>
          (let n = py_strip (py_str (getattr (name p) (PStr [])));
               nm = (if tn = [] then (if n = [] then ascii ''?'' else n) else tn)
           in case py_t (translate_heavenly_stem p) lang of
                Inl e \<Rightarrow> Inl e
              | Inr hs \<Rightarrow>
                  (case py_t (translate_earthly_branch p) lang of
                     Inl e \<Rightarrow> Inl e
                   | Inr eb \<Rightarrow> Inr (ascii ''- '' @ nm @ ascii '' '' @ hs @ eb))))"

subsection \<open>The flag suffix as the specification words it\<close>

definition spec_flag_suffix :: "bool \<Rightarrow> bool \<Rightarrow> pystr" where
  "spec_flag_suffix body origin =
     (if body then (if origin then ascii '' [body origin]'' else ascii '' [body]'')
      else (if origin then ascii '' [origin]'' else []))"

section \<open>Test stubs and sample inputs\<close>

text \<open>
  Entry points with a fixed behaviour, without state: one that rejects every call with
  a \<open>TypeError\<close> naming the keywords it was given, one that raises another exception,
  one that accepts fewer than \<open>n\<close> keywords and returns them, one that accepts only
  the positional arguments and returns them, and one whose positional call fails
  with a \<open>ValueError\<close>.
\<close>

definition always_TypeError :: "(unit, 'r) entry_point" where
  "always_TypeError = (\<lambda>s args kw.
     (Inl (TypeError (ascii ''unexpected keyword, '' @ ascii (concat (map fst kw)))), s))"

definition always_ValueError :: "(unit, 'r) entry_point" where
  "always_ValueError = (\<lambda>s args kw. (Inl (ValueError (ascii ''invalid date'')), s))"

definition accepts_fewer_than :: "nat \<Rightarrow> (unit, kwargs) entry_point" where
  "accepts_fewer_than n = (\<lambda>s args kw.
     (if length kw < n then Inr kw else Inl (TypeError (ascii ''too many options'')), s))"

definition positional_only :: "(unit, pyval list) entry_point" where
  "positional_only = (\<lambda>s args kw.
     (if kw = [] then Inr args else Inl (TypeError (ascii ''unexpected keyword'')), s))"


text \<open>
  The request of \<open>run_selftest\<close> in main.py, and the positional arguments
  \<open>create_chart\<close> passes for it: the date, the time index and the normalized gender.
\<close>

definition selftest_request :: ChartRequest where
  "selftest_request = \<lparr>calendar = ascii ''solar'', date = ascii ''2000-8-16'', time_index = 2,
     gender = Some (ascii ''male''), language = ascii ''zh-CN'', is_leap_month = False,
     fix_leap = True\<rparr>"

definition selftest_args :: "pyval list" where
  "selftest_args = [PStr (ascii ''2000-8-16''), PInt 2, PStr [30007]]"

text \<open>A sample palace entry and a sample palace object, with the body flag alone.\<close>

definition sample_entry :: pydict where
  "sample_entry = [''name'' \<mapsto> PStr (ascii ''soulPalace''), ''heavenlyStem'' \<mapsto> PStr (ascii ''jia''),
     ''earthlyBranch'' \<mapsto> PStr (ascii ''zi''), ''isBodyPalace'' \<mapsto> PBool True,
     ''isOriginalPalace'' \<mapsto> PBool False]"

definition sample_palace :: palace where
  "sample_palace = \<lparr>translate_name = Some (\<lambda>l. Inr (Some (ascii ''Life''))),
     name = Some (PStr (ascii ''soulPalace'')),
     translate_heavenly_stem = None, translate_earthly_branch = None,
     is_body_palace = Some (PBool True), is_original_palace = Some (PBool False)\<rparr>"

section \<open>Properties of the time bucket converter\<close>

text \<open>
  Claim C3. For every hour in 0..23 and minute in 0..59, \<open>time_to_index\<close> returns bucket 0
  for hour 23, bucket 12 for hour 0 and \<open>((hour - 1) // 2) + 1\<close> for the hours 1..22, and
  the minute does not change the bucket: any two valid minutes give the same result.
\<close>

theorem time_to_index_buckets:
  "0 \<le> h \<and> h \<le> 23 \<and> 0 \<le> m \<and> m \<le> 59 \<longrightarrow>
     time_to_index h m =
       Inr (if h = 23 then 0 else if h = 0 then 12 else ((h - 1) div 2) + 1)
     \<and> (\<forall>m'. 0 \<le> m' \<and> m' \<le> 59 \<longrightarrow> time_to_index h m' = time_to_index h m)"
  by (simp add: time_to_index_def)

theorem time_to_index_buckets_witness:
  "time_to_index 23 59 = Inr 0 \<and> time_to_index 0 0 = Inr 12 \<and> time_to_index 22 30 = Inr 11
   \<and> time_to_index 5 0 = time_to_index 5 59"
  using time_to_index_buckets [of 23 59] time_to_index_buckets [of 0 0]
    time_to_index_buckets [of 22 30] time_to_index_buckets [of 5 59]
  by simp

text \<open>
  Claim C10. \<open>time_to_index\<close> is onto the buckets 0..12: every bucket is the result at
  some valid hour and minute, and at every valid hour and minute the function returns
  a bucket between 0 and 12.
\<close>

theorem time_to_index_onto:
  "(\<forall>b. 0 \<le> b \<and> b \<le> 12 \<longrightarrow>
      (\<exists>h m. 0 \<le> h \<and> h \<le> 23 \<and> 0 \<le> m \<and> m \<le> 59 \<and> time_to_index h m = Inr b))
   \<and> (\<forall>h m. 0 \<le> h \<and> h \<le> 23 \<and> 0 \<le> m \<and> m \<le> 59 \<longrightarrow>
      (\<exists>b. time_to_index h m = Inr b \<and> 0 \<le> b \<and> b \<le> 12))"
proof (intro conjI allI impI)
  fix b :: int
  assume b: "0 \<le> b \<and> b \<le> 12"
  define h where "h = (if b = 0 then 23 else if b = 12 then 0 else 2 * b - 1)"
  have "0 \<le> h \<and> h \<le> 23 \<and> time_to_index h 0 = Inr b"
    using b by (auto simp: h_def time_to_index_def)
  then show "\<exists>h m. 0 \<le> h \<and> h \<le> 23 \<and> 0 \<le> m \<and> m \<le> 59 \<and> time_to_index h m = Inr b"
    by (intro exI [of _ h] exI [of _ 0]) simp
next
  fix h m :: int
  assume "0 \<le> h \<and> h \<le> 23 \<and> 0 \<le> m \<and> m \<le> 59"
  then show "\<exists>b. time_to_index h m = Inr b \<and> 0 \<le> b \<and> b \<le> 12"
    by (auto simp: time_to_index_def)
qed

theorem time_to_index_onto_witness:
  "(\<exists>h m. 0 \<le> h \<and> h \<le> 23 \<and> 0 \<le> m \<and> m \<le> 59 \<and> time_to_index h m = Inr 7)
   \<and> (\<exists>b. time_to_index 13 30 = Inr b \<and> 0 \<le> b \<and> b \<le> 12)"
proof -
  have a: "(0::int) \<le> 7 \<and> (7::int) \<le> 12" by simp
  have b: "(0::int) \<le> 13 \<and> (13::int) \<le> 23 \<and> (0::int) \<le> 30 \<and> (30::int) \<le> 59" by simp
  from time_to_index_onto a b show ?thesis by blast
qed

section \<open>Properties of the adaptive call\<close>

lemma pop_simps:
  "pop_key k [] = []"
  "pop_key k ((k', v) # kw) = (if k' = k then pop_key k kw else (k', v) # pop_key k kw)"
  by (auto simp: pop_key_def)

lemma recording_fst: "fst (recording fn sl a kw) = fst (fn (fst sl) a kw)"
  by (simp add: recording_def)

lemma recording_log: "snd (snd (recording fn sl a kw)) = snd sl @ [(a, kw)]"
  by (simp add: recording_def)

lemma recording_state: "fst (snd (recording fn sl a kw)) = snd (fn (fst sl) a kw)"
  by (simp add: recording_def)


text \<open>
  Claim C1. After a \<open>TypeError\<close> of the full call, \<open>_call_astro\<close> retries with one
  optional keyword removed at a time, and the claim has every attempt that drops a leap
  flag come before the attempt that drops \<open>language\<close>. The code does the opposite:
  \<open>language\<close> is the first key of \<open>optional_keys\<close>. Against an entry point that
  rejects every call, the attempts for a lunar request are the full call, then the call
  without \<open>language\<close>, then the four calls without one leap flag, then the positional
  call. Against an entry point that accepts any two of the three solar keywords, the
  call without \<open>language\<close> is the one whose result is returned, although the call that
  keeps \<open>language\<close> and drops \<open>fix_leap\<close> succeeds as well.
\<close>

theorem call_astro_drops_language_first:
  "attempts (always_TypeError :: (unit, nat) entry_point) selftest_args
     (lunar_kwargs selftest_request) () =
   [(selftest_args, lunar_kwargs selftest_request),
    (selftest_args, pop_key ''language'' (lunar_kwargs selftest_request)),
    (selftest_args, pop_key ''fix_leap'' (lunar_kwargs selftest_request)),
    (selftest_args, pop_key ''fixLeap'' (lunar_kwargs selftest_request)),
    (selftest_args, pop_key ''is_leap_month'' (lunar_kwargs selftest_request)),
    (selftest_args, pop_key ''isLeapMonth'' (lunar_kwargs selftest_request)),
    (selftest_args, [])]
   \<and> call_astro (recording (accepts_fewer_than 3)) selftest_args
        (solar_kwargs selftest_request) ((), []) =
      (Inr [(''fix_leap'', PBool True), (''fixLeap'', PBool True)],
       ((), [(selftest_args, solar_kwargs selftest_request),
             (selftest_args, pop_key ''language'' (solar_kwargs selftest_request))]))
   \<and> fst (accepts_fewer_than 3 () selftest_args
        (pop_key ''fix_leap'' (solar_kwargs selftest_request))) =
      Inr [(''language'', PStr (ascii ''zh-CN'')), (''fixLeap'', PBool True)]"
proof (intro conjI)
  show "attempts (always_TypeError :: (unit, nat) entry_point) selftest_args
     (lunar_kwargs selftest_request) () =
   [(selftest_args, lunar_kwargs selftest_request),
    (selftest_args, pop_key ''language'' (lunar_kwargs selftest_request)),
    (selftest_args, pop_key ''fix_leap'' (lunar_kwargs selftest_request)),
    (selftest_args, pop_key ''fixLeap'' (lunar_kwargs selftest_request)),
    (selftest_args, pop_key ''is_leap_month'' (lunar_kwargs selftest_request)),
    (selftest_args, pop_key ''isLeapMonth'' (lunar_kwargs selftest_request)),
    (selftest_args, [])]"
    by (simp add: attempts_def call_astro_def recording_def always_TypeError_def
        lunar_kwargs_def optional_keys_def pop_simps)
  show "call_astro (recording (accepts_fewer_than 3)) selftest_args
        (solar_kwargs selftest_request) ((), []) =
      (Inr [(''fix_leap'', PBool True), (''fixLeap'', PBool True)],
       ((), [(selftest_args, solar_kwargs selftest_request),
             (selftest_args, pop_key ''language'' (solar_kwargs selftest_request))]))"
    by (simp add: call_astro_def recording_def accepts_fewer_than_def solar_kwargs_def
        selftest_request_def optional_keys_def pop_simps)
  show "fst (accepts_fewer_than 3 () selftest_args
        (pop_key ''fix_leap'' (solar_kwargs selftest_request))) =
      Inr [(''language'', PStr (ascii ''zh-CN'')), (''fixLeap'', PBool True)]"
    by (simp add: accepts_fewer_than_def solar_kwargs_def selftest_request_def pop_simps)
qed




lemma retry_loop_positional_only:
  assumes rej: "\<forall>s' a k. k \<noteq> [] \<longrightarrow> (\<exists>m. fst (fn s' a k) = Inl (TypeError m))"
    and acc: "\<forall>s'. fst (fn s' args []) = Inr r"
  shows "fst (retry_loop (recording fn) args kw keys sl) = None \<or>
         (fst (retry_loop (recording fn) args kw keys sl) = Some (Inr r) \<and>
          snd (snd (retry_loop (recording fn) args kw keys sl)) \<noteq> [] \<and>
          last (snd (snd (retry_loop (recording fn) args kw keys sl))) = (args, []))"
proof (induction keys arbitrary: sl)
  case Nil
  show ?case by simp
next
  case (Cons key keys)
  show ?case
  proof (cases "key \<in> set (map fst kw)")
    case False
    then show ?thesis using Cons.IH [of sl] by simp
  next
    case True
    show ?thesis
    proof (cases "pop_key key kw = []")
      case True
      have "recording fn sl args [] = (Inr r, (snd (fn (fst sl) args []), snd sl @ [(args, [])]))"
        using acc by (simp add: recording_def)
      then show ?thesis using \<open>key \<in> set (map fst kw)\<close> True by simp
    next
      case False
      then obtain m where "fst (fn (fst sl) args (pop_key key kw)) = Inl (TypeError m)"
        using rej by blast
      then have "recording fn sl args (pop_key key kw) =
          (Inl (TypeError m), (snd (fn (fst sl) args (pop_key key kw)), snd sl @ [(args, pop_key key kw)]))"
        by (simp add: recording_def)
      then show ?thesis
        using \<open>key \<in> set (map fst kw)\<close> Cons.IH [of "(snd (fn (fst sl) args (pop_key key kw)), snd sl @ [(args, pop_key key kw)])"]
        by simp
    qed
  qed
qed

lemma retry_loop_positional_result:
  assumes rej: "\<forall>s' a k. k \<noteq> [] \<longrightarrow> (\<exists>m. fst (fn s' a k) = Inl (TypeError m))"
    and acc: "\<forall>s'. fst (fn s' args []) = Inr r"
  shows "fst (retry_loop fn args kw keys s) = None \<or>
         fst (retry_loop fn args kw keys s) = Some (Inr r)"
proof (induction keys arbitrary: s)
  case Nil
  show ?case by simp
next
  case (Cons key keys)
  show ?case
  proof (cases "key \<in> set (map fst kw)")
    case False
    then show ?thesis using Cons.IH [of s] by simp
  next
    case True
    show ?thesis
    proof (cases "pop_key key kw = []")
      case True
      obtain s' where "fn s args [] = (Inr r, s')"
        using acc by (cases "fn s args []") (auto dest: spec [of _ s])
      then show ?thesis using \<open>key \<in> set (map fst kw)\<close> True by simp
    next
      case False
      then obtain m where "fst (fn s args (pop_key key kw)) = Inl (TypeError m)"
        using rej by blast
      then obtain s' where "fn s args (pop_key key kw) = (Inl (TypeError m), s')"
        by (cases "fn s args (pop_key key kw)") auto
      then show ?thesis
        using \<open>key \<in> set (map fst kw)\<close> Cons.IH [of s'] by simp
    qed
  qed
qed

lemma call_astro_positional_result:
  assumes rej: "\<forall>s' a k. k \<noteq> [] \<longrightarrow> (\<exists>m. fst (fn s' a k) = Inl (TypeError m))"
    and acc: "\<forall>s'. fst (fn s' args []) = Inr r"
  shows "fst (call_astro fn args kw s) = Inr r"
proof (cases "kw = []")
  case True
  obtain s1 where "fn s args [] = (Inr r, s1)"
    using acc by (cases "fn s args []") (auto dest: spec [of _ s])
  then show ?thesis using True by (simp add: call_astro_def)
next
  case False
  then obtain m where "fst (fn s args kw) = Inl (TypeError m)"
    using rej by blast
  then obtain s1 where s1: "fn s args kw = (Inl (TypeError m), s1)"
    by (cases "fn s args kw") auto
  obtain ro s2 where s2: "retry_loop fn args kw optional_keys s1 = (ro, s2)"
    by (cases "retry_loop fn args kw optional_keys s1") auto
  obtain s3 where s3: "fn s2 args [] = (Inr r, s3)"
    using acc by (cases "fn s2 args []") (auto dest: spec [of _ s2])
  have "ro = None \<or> ro = Some (Inr r)"
    using retry_loop_positional_result [OF rej acc, of kw optional_keys s1] s2 by simp
  then show ?thesis
    by (auto simp: call_astro_def s1 s2 s3)
qed

lemma call_astro_positional_log:
  assumes rej: "\<forall>s' a k. k \<noteq> [] \<longrightarrow> (\<exists>m. fst (fn s' a k) = Inl (TypeError m))"
    and acc: "\<forall>s'. fst (fn s' args []) = Inr r"
  shows "last (attempts fn args kw s) = (args, [])"
proof (cases "kw = []")
  case True
  have "recording fn (s, []) args [] = (Inr r, (snd (fn s args []), [(args, [])]))"
    using acc by (simp add: recording_def)
  then show ?thesis using True by (simp add: attempts_def call_astro_def)
next
  case False
  then obtain m where "fst (fn s args kw) = Inl (TypeError m)"
    using rej by blast
  then have s1: "recording fn (s, []) args kw = (Inl (TypeError m), (snd (fn s args kw), [(args, kw)]))"
    by (simp add: recording_def)
  let ?sl = "(snd (fn s args kw), [(args, kw)])"
  obtain ro s2 l2 where s2: "retry_loop (recording fn) args kw optional_keys ?sl = (ro, (s2, l2))"
    by (cases "retry_loop (recording fn) args kw optional_keys ?sl") auto
  have s3: "recording fn (s2, l2) args [] = (Inr r, (snd (fn s2 args []), l2 @ [(args, [])]))"
    using acc by (simp add: recording_def)
  have "ro = None \<or> (ro = Some (Inr r) \<and> l2 \<noteq> [] \<and> last l2 = (args, []))"
    using retry_loop_positional_only [OF rej acc, of kw optional_keys ?sl] s2 by simp
  then show ?thesis
    by (auto simp: attempts_def call_astro_def s1 s2 s3)
qed

text \<open>
  Claim C4. Against an entry point that raises a \<open>TypeError\<close> whenever it is given a
  keyword argument and returns a result when given the positional arguments alone,
  \<open>_call_astro\<close> returns that result, and the last call it makes is the one with the
  positional arguments and no keyword.
\<close>

theorem call_astro_positional_fallback:
  assumes rej: "\<forall>s' a k. k \<noteq> [] \<longrightarrow> (\<exists>m. fst (fn s' a k) = Inl (TypeError m))"
    and acc: "\<forall>s'. fst (fn s' args []) = Inr r"
  shows "fst (call_astro fn args kw s) = Inr r \<and> last (attempts fn args kw s) = (args, [])"
  using call_astro_positional_result [OF rej acc] call_astro_positional_log [OF rej acc]
  by simp

theorem call_astro_positional_fallback_witness:
  "fst (call_astro positional_only selftest_args (solar_kwargs selftest_request) ()) =
     Inr selftest_args
   \<and> last (attempts positional_only selftest_args (solar_kwargs selftest_request) ()) =
     (selftest_args, [])"
proof -
  have rej: "\<forall>s' a k. k \<noteq> [] \<longrightarrow> (\<exists>m. fst (positional_only s' a k) = Inl (TypeError m))"
    by (simp add: positional_only_def)
  have acc: "\<forall>s'. fst (positional_only s' selftest_args []) = Inr selftest_args"
    by (simp add: positional_only_def)
  show ?thesis
    using call_astro_positional_fallback
      [of positional_only selftest_args selftest_args "solar_kwargs selftest_request" "()"] rej acc
    by blast
qed

text \<open>
  The same through \<open>create_chart\<close>, for the request of the self-test and an engine that
  has only \<open>bySolar\<close>: the calls made are the full call, the three calls with one
  keyword removed and the positional call, whose arguments are the date, the time
  index and the normalized gender.
\<close>

lemma create_chart_positional_only:
  "create_chart
     (Some \<lparr>by_solar = None, bySolar = Some (recording positional_only),
            by_lunar = None, byLunar = None\<rparr>)
     selftest_request ((), []) =
   (Inr selftest_args,
    ((), [(selftest_args, solar_kwargs selftest_request),
          (selftest_args, pop_key ''language'' (solar_kwargs selftest_request)),
          (selftest_args, pop_key ''fix_leap'' (solar_kwargs selftest_request)),
          (selftest_args, pop_key ''fixLeap'' (solar_kwargs selftest_request)),
          (selftest_args, [])]))"
  by (simp add: create_chart_def call_astro_def recording_def positional_only_def
      solar_kwargs_def selftest_request_def selftest_args_def optional_keys_def pop_simps
      normalize_gender_def male_def py_lower_def lower_cp_def
      py_strip_def py_lstrip_def py_rstrip_def py_isspace_def ascii_def)

text \<open>
  Claim C9. When the full call raises an exception that is not a \<open>TypeError\<close>,
  \<open>_call_astro\<close> ends with that exception at once: its outcome is the outcome of the
  full call, and the full call is the only call made.
\<close>

theorem call_astro_no_retry:
  assumes "fst (fn s args kw) = Inl e" and "\<not> is_TypeError e"
  shows "call_astro fn args kw s = fn s args kw \<and> attempts fn args kw s = [(args, kw)]"
proof -
  obtain s1 where s1: "fn s args kw = (Inl e, s1)"
    using assms(1) by (cases "fn s args kw") auto
  have "recording fn (s, []) args kw = (Inl e, (s1, [(args, kw)]))"
    by (simp add: recording_def s1)
  then show ?thesis
    using assms(2) by (simp add: call_astro_def attempts_def s1)
qed

theorem call_astro_no_retry_witness:
  "call_astro (always_ValueError :: (unit, nat) entry_point) selftest_args
     (lunar_kwargs selftest_request) () = (Inl (ValueError (ascii ''invalid date'')), ())
   \<and> attempts (always_ValueError :: (unit, nat) entry_point) selftest_args
     (lunar_kwargs selftest_request) () = [(selftest_args, lunar_kwargs selftest_request)]"
proof -
  have a: "fst ((always_ValueError :: (unit, nat) entry_point) () selftest_args
      (lunar_kwargs selftest_request)) = Inl (ValueError (ascii ''invalid date''))"
    by (simp add: always_ValueError_def)
  have b: "\<not> is_TypeError (ValueError (ascii ''invalid date''))"
    by simp
  show ?thesis
    using call_astro_no_retry
      [of "always_ValueError :: (unit, nat) entry_point" "()" selftest_args
        "lunar_kwargs selftest_request" "ValueError (ascii ''invalid date'')"] a b
    by (simp add: always_ValueError_def)
qed

section \<open>Properties of the gender normalizer\<close>

lemmas strip_defs = py_strip_def py_lstrip_def py_rstrip_def py_isspace_def
lemmas gender_defs = normalize_gender_def male_def female_def py_lower_def lower_cp_def ascii_def gender_message_def

lemma lower_cp_space: "py_isspace (lower_cp c) = py_isspace c"
  by (auto simp: lower_cp_def py_isspace_def)

lemma dropWhile_space_lower:
  "dropWhile py_isspace (map lower_cp s) = map lower_cp (dropWhile py_isspace s)"
  by (induction s) (simp_all add: lower_cp_space)

lemma py_strip_lower: "py_strip (py_lower s) = py_lower (py_strip s)"
  by (simp add: py_strip_def py_lstrip_def py_rstrip_def py_lower_def dropWhile_space_lower
      rev_map)

lemma py_lstrip_ws:
  "\<forall>c \<in> set ws. py_isspace c \<Longrightarrow> py_lstrip (ws @ s) = py_lstrip s"
  by (induction ws) (simp_all add: py_lstrip_def)

lemma py_rstrip_ws:
  "\<forall>c \<in> set ws. py_isspace c \<Longrightarrow> py_rstrip (s @ ws) = py_rstrip s"
  using dropWhile_append2 [of "rev ws" py_isspace "rev s"] by (simp add: py_rstrip_def)

lemma py_strip_ws:
  assumes ws: "\<forall>c \<in> set ws. py_isspace c" and ws': "\<forall>c \<in> set ws'. py_isspace c"
  shows "py_strip (ws @ s @ ws') = py_strip s"
proof (cases "\<forall>c \<in> set s. py_isspace c")
  case True
  then have "py_lstrip (s @ ws') = []" and "py_lstrip s = []"
    using ws' by (auto simp: py_lstrip_def)
  then show ?thesis
    using ws by (simp add: py_strip_def py_lstrip_ws)
next
  case False
  then have "py_lstrip (s @ ws') = py_lstrip s @ ws'"
    by (auto simp: py_lstrip_def dropWhile_append1)
  then show ?thesis
    using ws ws' by (simp add: py_strip_def py_lstrip_ws py_rstrip_ws)
qed

lemma canon_male: "normalize_gender (Some [30007]) = Inr [30007]"
  by (simp add: gender_defs strip_defs)

lemma canon_female: "normalize_gender (Some [22899]) = Inr [22899]"
  by (simp add: gender_defs strip_defs)

lemma male_female_disjoint: "v \<in> set female \<Longrightarrow> v \<notin> set male"
  by (auto simp: male_def female_def ascii_def)

lemma normalize_gender_male:
  "py_lower (py_strip v) \<in> set male \<Longrightarrow> normalize_gender (Some v) = Inr [30007]"
  by (simp add: normalize_gender_def)

lemma normalize_gender_female:
  "py_lower (py_strip v) \<in> set female \<Longrightarrow> normalize_gender (Some v) = Inr [22899]"
  using male_female_disjoint [of "py_lower (py_strip v)"] by (simp add: normalize_gender_def Let_def)

lemma normalize_gender_neither:
  "py_lower (py_strip v) \<notin> set male \<union> set female \<Longrightarrow>
   normalize_gender (Some v) = Inl (ValueError gender_message)"
  by (simp add: normalize_gender_def)

lemma normalize_gender_range:
  "normalize_gender v = Inr r \<Longrightarrow> r = [30007] \<or> r = [22899]"
  by (auto simp: normalize_gender_def Let_def split: option.splits if_splits)

lemma normalize_gender_trim:
  "(\<forall>c \<in> set ws. py_isspace c) \<and> (\<forall>c \<in> set ws'. py_isspace c) \<Longrightarrow>
   normalize_gender (Some (ws @ v @ ws')) = normalize_gender (Some v)"
  by (simp add: normalize_gender_def py_strip_ws)

lemma normalize_gender_case:
  assumes "py_lower u = py_lower v"
  shows "normalize_gender (Some u) = normalize_gender (Some v)"
proof -
  have "py_lower (py_strip u) = py_lower (py_strip v)"
    using assms by (simp add: py_strip_lower [symmetric])
  then show ?thesis by (simp add: normalize_gender_def)
qed

lemma normalize_gender_male_examples:
  "\<forall>v \<in> set [ascii ''male'', ascii ''Male'', ascii '' MALE '', ascii ''m'',
       [45224], [45224, 51088], [30007]]. normalize_gender (Some v) = Inr [30007]"
  by (simp add: gender_defs strip_defs)

lemma normalize_gender_female_examples:
  "\<forall>v \<in> set [ascii ''female'', ascii ''Female'', ascii '' FEMALE '', ascii ''f'',
       [50668], [50668, 51088], [22899]]. normalize_gender (Some v) = Inr [22899]"
  by (simp add: gender_defs strip_defs)

lemma normalize_gender_failures:
  "normalize_gender (Some (ascii ''other'')) = Inl (ValueError gender_message)"
  "normalize_gender (Some []) = Inl (ValueError gender_message)"
  "normalize_gender None = Inl (ValueError (ascii ''gender is required''))"
  "ascii ''gender is required'' \<noteq> gender_message"
  by (simp_all add: gender_defs strip_defs)

text \<open>
  Claim C5. \<open>normalize_gender\<close> trims its input, folds its case and looks it up in two
  fixed token sets; it returns one of exactly two tokens. The spellings
  \<open>male\<close>, \<open>Male\<close>, \<open> MALE \<close>, \<open>m\<close>, U+B0A8, U+B0A8 U+C790 and U+7537 all give the
  male token U+7537, the female spellings give the female token U+5973; an input in
  neither set (\<open>other\<close>, the empty string) fails with the \<open>ValueError\<close> that names the
  accepted forms, and \<open>None\<close> fails with another \<open>ValueError\<close>.
\<close>

theorem normalize_gender_tokens:
  "(\<forall>v \<in> set [ascii ''male'', ascii ''Male'', ascii '' MALE '', ascii ''m'',
       [45224], [45224, 51088], [30007]]. normalize_gender (Some v) = Inr [30007])
   \<and> (\<forall>v \<in> set [ascii ''female'', ascii ''Female'', ascii '' FEMALE '', ascii ''f'',
       [50668], [50668, 51088], [22899]]. normalize_gender (Some v) = Inr [22899])
   \<and> normalize_gender (Some (ascii ''other'')) = Inl (ValueError gender_message)
   \<and> normalize_gender (Some []) = Inl (ValueError gender_message)
   \<and> normalize_gender None = Inl (ValueError (ascii ''gender is required''))
   \<and> ascii ''gender is required'' \<noteq> gender_message
   \<and> (\<forall>v. py_lower (py_strip v) \<in> set male \<longrightarrow> normalize_gender (Some v) = Inr [30007])
   \<and> (\<forall>v. py_lower (py_strip v) \<in> set female \<longrightarrow> normalize_gender (Some v) = Inr [22899])
   \<and> (\<forall>v. py_lower (py_strip v) \<notin> set male \<union> set female \<longrightarrow>
         normalize_gender (Some v) = Inl (ValueError gender_message))
   \<and> (\<forall>v r. normalize_gender v = Inr r \<longrightarrow> r = [30007] \<or> r = [22899])
   \<and> (\<forall>ws ws' v. (\<forall>c \<in> set ws. py_isspace c) \<and> (\<forall>c \<in> set ws'. py_isspace c) \<longrightarrow>
         normalize_gender (Some (ws @ v @ ws')) = normalize_gender (Some v))
   \<and> (\<forall>u v. py_lower u = py_lower v \<longrightarrow> normalize_gender (Some u) = normalize_gender (Some v))"
  using normalize_gender_male_examples normalize_gender_female_examples
    normalize_gender_failures normalize_gender_male normalize_gender_female
    normalize_gender_neither normalize_gender_range normalize_gender_trim normalize_gender_case
  by (intro conjI allI impI) blast+

theorem normalize_gender_tokens_witness:
  "normalize_gender (Some (ascii ''Man'')) = Inr [30007]
   \<and> normalize_gender (Some (ascii ''WOMAN'')) = Inr [22899]
   \<and> normalize_gender (Some (ascii ''x'')) = Inl (ValueError gender_message)
   \<and> normalize_gender (Some ([9, 32] @ ascii ''f'' @ [10])) = normalize_gender (Some (ascii ''f''))
   \<and> normalize_gender (Some (ascii ''FeMale'')) = normalize_gender (Some (ascii ''female''))"
proof -
  have a: "py_lower (py_strip (ascii ''Man'')) \<in> set male"
    by (simp add: gender_defs strip_defs)
  have b: "py_lower (py_strip (ascii ''WOMAN'')) \<in> set female"
    by (simp add: gender_defs strip_defs)
  have c: "py_lower (py_strip (ascii ''x'')) \<notin> set male \<union> set female"
    by (simp add: gender_defs strip_defs)
  have d: "(\<forall>c \<in> set [9, 32]. py_isspace c) \<and> (\<forall>c \<in> set [10]. py_isspace c)"
    by (simp add: py_isspace_def)
  have e: "py_lower (ascii ''FeMale'') = py_lower (ascii ''female'')"
    by (simp add: py_lower_def lower_cp_def ascii_def)
  from normalize_gender_tokens a b c d e show ?thesis
    by blast
qed

text \<open>
  Claim C8. \<open>normalize_gender\<close> is idempotent: the two tokens it returns are members
  of the accepted sets, so on every input on which it succeeds, applying it to its own
  result returns the same token.
\<close>

theorem normalize_gender_idempotent:
  "[30007] \<in> set male \<and> [22899] \<in> set female
   \<and> (\<forall>v t. normalize_gender (Some v) = Inr t \<longrightarrow> normalize_gender (Some t) = Inr t)"
proof (intro conjI allI impI)
  show "[30007] \<in> set male" by (simp add: male_def)
  show "[22899] \<in> set female" by (simp add: female_def)
next
  fix v t
  assume "normalize_gender (Some v) = Inr t"
  then have "t = [30007] \<or> t = [22899]"
    by (rule normalize_gender_range)
  then show "normalize_gender (Some t) = Inr t"
    using canon_male canon_female by auto
qed

theorem normalize_gender_idempotent_witness:
  "normalize_gender (Some [30007]) = Inr [30007]"
proof -
  have "normalize_gender (Some (ascii '' MALE '')) = Inr [30007]"
    by (simp add: gender_defs strip_defs)
  with normalize_gender_idempotent show ?thesis
    by blast
qed

section \<open>Properties of the time parser\<close>

lemmas hhmm_strip_defs = ascii_def py_strip_def py_lstrip_def py_rstrip_def py_isspace_def

lemmas int_defs = py_int_def int_isspace_def py_isspace_def digits_value_def digit_value_def decimal_zeros_def

lemma hhmm_parse_error: "parse_hhmm v = Inl e \<Longrightarrow> hhmm_to_index v = Inl e"
  by (simp add: hhmm_to_index_def)

lemma parse_hhmm_parts:
  "length (py_split 58 (py_strip v)) \<noteq> 2 \<Longrightarrow>
   parse_hhmm (Some v) = Inl (ValueError (ascii ''time must be in HH:MM format''))"
  by (simp add: parse_hhmm_def)

lemma parse_hhmm_numeric:
  "py_split 58 (py_strip v) = [a, b] \<and> (py_int a = None \<or> py_int b = None) \<Longrightarrow>
   parse_hhmm (Some v) = Inl (ValueError (ascii ''time must be numeric HH:MM''))"
  by (auto simp: parse_hhmm_def split: option.splits)

lemma parse_hhmm_hour:
  "py_split 58 (py_strip v) = [a, b] \<and> py_int a = Some h \<and> py_int b = Some m \<and> (h < 0 \<or> 23 < h) \<Longrightarrow>
   parse_hhmm (Some v) = Inl (ValueError (ascii ''hour must be 0..23''))"
  by (auto simp: parse_hhmm_def)

lemma parse_hhmm_minute:
  "py_split 58 (py_strip v) = [a, b] \<and> py_int a = Some h \<and> py_int b = Some m \<and>
   0 \<le> h \<and> h \<le> 23 \<and> (m < 0 \<or> 59 < m) \<Longrightarrow>
   parse_hhmm (Some v) = Inl (ValueError (ascii ''minute must be 0..59''))"
  by (auto simp: parse_hhmm_def)

lemma parse_hhmm_Inr:
  assumes "parse_hhmm (Some v) = Inr t"
  shows "\<exists>a b. py_split 58 (py_strip v) = [a, b] \<and> py_int a = Some (hour t) \<and>
     py_int b = Some (minute t) \<and> 0 \<le> hour t \<and> hour t \<le> 23 \<and> 0 \<le> minute t \<and> minute t \<le> 59"
proof -
  let ?parts = "py_split 58 (py_strip v)"
  have len: "length ?parts = 2"
    using assms by (auto simp: parse_hhmm_def Let_def split: if_splits)
  then obtain a b where ab: "?parts = [a, b]"
    by (cases ?parts; cases "tl ?parts") auto
  show ?thesis
    using assms ab by (auto simp: parse_hhmm_def Let_def split: if_splits option.splits)
qed

lemma hhmm_to_index_Inr:
  assumes "hhmm_to_index (Some v) = Inr k"
  shows "\<exists>a b h m. py_split 58 (py_strip v) = [a, b] \<and> py_int a = Some h \<and> py_int b = Some m \<and>
     0 \<le> h \<and> h \<le> 23 \<and> 0 \<le> m \<and> m \<le> 59 \<and> time_to_index h m = Inr k"
proof -
  obtain t where t: "parse_hhmm (Some v) = Inr t" and k: "time_to_index (hour t) (minute t) = Inr k"
    using assms by (auto simp: hhmm_to_index_def split: sum.splits)
  from parse_hhmm_Inr [OF t] k show ?thesis by blast
qed

lemma split_noon: "py_split 58 (py_strip (ascii ''noon'')) = [ascii ''noon'']"
  by (simp add: hhmm_strip_defs)
lemma split_1230: "py_split 58 (py_strip (ascii ''12-30'')) = [ascii ''12-30'']"
  by (simp add: hhmm_strip_defs)
lemma split_123000: "py_split 58 (py_strip (ascii ''12:30:00'')) = [ascii ''12'', ascii ''30'', ascii ''00'']"
  by (simp add: hhmm_strip_defs)
lemma split_2500: "py_split 58 (py_strip (ascii ''25:00'')) = [ascii ''25'', ascii ''00'']"
  by (simp add: hhmm_strip_defs)
lemma split_1261: "py_split 58 (py_strip (ascii ''12:61'')) = [ascii ''12'', ascii ''61'']"
  by (simp add: hhmm_strip_defs)
lemma int_examples:
  "py_int (ascii ''25'') = Some 25" "py_int (ascii ''00'') = Some 0"
  "py_int (ascii ''12'') = Some 12" "py_int (ascii ''61'') = Some 61"
  by (simp_all add: int_defs ascii_def)

lemma hhmm_examples:
  "hhmm_to_index (Some (ascii ''25:00'')) = Inl (ValueError (ascii ''hour must be 0..23''))"
  "hhmm_to_index (Some (ascii ''12:61'')) = Inl (ValueError (ascii ''minute must be 0..59''))"
  "hhmm_to_index (Some (ascii ''noon'')) = Inl (ValueError (ascii ''time must be in HH:MM format''))"
  "hhmm_to_index (Some (ascii ''12-30'')) = Inl (ValueError (ascii ''time must be in HH:MM format''))"
  "hhmm_to_index (Some (ascii ''12:30:00'')) = Inl (ValueError (ascii ''time must be in HH:MM format''))"
proof -
  show "hhmm_to_index (Some (ascii ''25:00'')) = Inl (ValueError (ascii ''hour must be 0..23''))"
    using parse_hhmm_hour [of "ascii ''25:00''" "ascii ''25''" "ascii ''00''" 25 0]
    by (simp add: split_2500 int_examples hhmm_parse_error)
  show "hhmm_to_index (Some (ascii ''12:61'')) = Inl (ValueError (ascii ''minute must be 0..59''))"
    using parse_hhmm_minute [of "ascii ''12:61''" "ascii ''12''" "ascii ''61''" 12 61]
    by (simp add: split_1261 int_examples hhmm_parse_error)
  show "hhmm_to_index (Some (ascii ''noon'')) = Inl (ValueError (ascii ''time must be in HH:MM format''))"
    using parse_hhmm_parts [of "ascii ''noon''"] by (simp add: split_noon hhmm_parse_error)
  show "hhmm_to_index (Some (ascii ''12-30'')) = Inl (ValueError (ascii ''time must be in HH:MM format''))"
    using parse_hhmm_parts [of "ascii ''12-30''"] by (simp add: split_1230 hhmm_parse_error)
  show "hhmm_to_index (Some (ascii ''12:30:00'')) = Inl (ValueError (ascii ''time must be in HH:MM format''))"
    using parse_hhmm_parts [of "ascii ''12:30:00''"] by (simp add: split_123000 hhmm_parse_error)
qed

text \<open>
  Claim C6. A malformed time string never gets a bucket: when the trimmed string does
  not split at \<open>:\<close> into exactly two parts, when a part is not an integer, or when the
  hour is outside 0..23 or the minute outside 0..59, \<open>parse_hhmm\<close> raises a
  \<open>ValueError\<close> and \<open>hhmm_to_index\<close> raises the same error without computing a
  bucket; so a bucket is only returned for two integer parts in range. The strings
  \<open>25:00\<close>, \<open>12:61\<close>, \<open>noon\<close>, \<open>12-30\<close> and \<open>12:30:00\<close> all fail.
\<close>

theorem hhmm_malformed_rejected:
  "(\<forall>v. length (py_split 58 (py_strip v)) \<noteq> 2 \<longrightarrow>
      parse_hhmm (Some v) = Inl (ValueError (ascii ''time must be in HH:MM format'')))
   \<and> (\<forall>v a b. py_split 58 (py_strip v) = [a, b] \<and> (py_int a = None \<or> py_int b = None) \<longrightarrow>
      parse_hhmm (Some v) = Inl (ValueError (ascii ''time must be numeric HH:MM'')))
   \<and> (\<forall>v a b h m. py_split 58 (py_strip v) = [a, b] \<and> py_int a = Some h \<and> py_int b = Some m \<and>
        (h < 0 \<or> 23 < h) \<longrightarrow>
      parse_hhmm (Some v) = Inl (ValueError (ascii ''hour must be 0..23'')))
   \<and> (\<forall>v a b h m. py_split 58 (py_strip v) = [a, b] \<and> py_int a = Some h \<and> py_int b = Some m \<and>
        0 \<le> h \<and> h \<le> 23 \<and> (m < 0 \<or> 59 < m) \<longrightarrow>
      parse_hhmm (Some v) = Inl (ValueError (ascii ''minute must be 0..59'')))
   \<and> (\<forall>v e. parse_hhmm v = Inl e \<longrightarrow> hhmm_to_index v = Inl e)
   \<and> (\<forall>v k. hhmm_to_index (Some v) = Inr k \<longrightarrow>
        (\<exists>a b h m. py_split 58 (py_strip v) = [a, b] \<and> py_int a = Some h \<and> py_int b = Some m \<and>
           0 \<le> h \<and> h \<le> 23 \<and> 0 \<le> m \<and> m \<le> 59 \<and> time_to_index h m = Inr k))
   \<and> hhmm_to_index (Some (ascii ''25:00'')) = Inl (ValueError (ascii ''hour must be 0..23''))
   \<and> hhmm_to_index (Some (ascii ''12:61'')) = Inl (ValueError (ascii ''minute must be 0..59''))
   \<and> hhmm_to_index (Some (ascii ''noon'')) = Inl (ValueError (ascii ''time must be in HH:MM format''))
   \<and> hhmm_to_index (Some (ascii ''12-30'')) = Inl (ValueError (ascii ''time must be in HH:MM format''))
   \<and> hhmm_to_index (Some (ascii ''12:30:00'')) = Inl (ValueError (ascii ''time must be in HH:MM format''))"
proof (intro conjI allI impI)
  fix v
  assume "length (py_split 58 (py_strip v)) \<noteq> 2"
  then show "parse_hhmm (Some v) = Inl (ValueError (ascii ''time must be in HH:MM format''))"
    by (rule parse_hhmm_parts)
next
  fix v a b
  assume "py_split 58 (py_strip v) = [a, b] \<and> (py_int a = None \<or> py_int b = None)"
  then show "parse_hhmm (Some v) = Inl (ValueError (ascii ''time must be numeric HH:MM''))"
    by (rule parse_hhmm_numeric)
next
  fix v a b h m
  assume "py_split 58 (py_strip v) = [a, b] \<and> py_int a = Some h \<and> py_int b = Some m \<and>
        (h < 0 \<or> 23 < h)"
  then show "parse_hhmm (Some v) = Inl (ValueError (ascii ''hour must be 0..23''))"
    by (rule parse_hhmm_hour)
next
  fix v a b h m
  assume "py_split 58 (py_strip v) = [a, b] \<and> py_int a = Some h \<and> py_int b = Some m \<and>
        0 \<le> h \<and> h \<le> 23 \<and> (m < 0 \<or> 59 < m)"
  then show "parse_hhmm (Some v) = Inl (ValueError (ascii ''minute must be 0..59''))"
    by (rule parse_hhmm_minute)
next
  fix v e
  assume "parse_hhmm v = Inl e"
  then show "hhmm_to_index v = Inl e"
    by (rule hhmm_parse_error)
next
  fix v k
  assume "hhmm_to_index (Some v) = Inr k"
  then show "\<exists>a b h m. py_split 58 (py_strip v) = [a, b] \<and> py_int a = Some h \<and> py_int b = Some m \<and>
           0 \<le> h \<and> h \<le> 23 \<and> 0 \<le> m \<and> m \<le> 59 \<and> time_to_index h m = Inr k"
    by (rule hhmm_to_index_Inr)
qed (rule hhmm_examples)+

lemma split_0359: "py_split 58 (py_strip (ascii '' 03:59 '')) = [ascii ''03'', ascii ''59'']"
  by (simp add: hhmm_strip_defs)

lemma split_1x: "py_split 58 (py_strip (ascii ''1x:00'')) = [ascii ''1x'', ascii ''00'']"
  by (simp add: hhmm_strip_defs)

lemma int_more:
  "py_int (ascii ''03'') = Some 3" "py_int (ascii ''59'') = Some 59" "py_int (ascii ''1x'') = None"
  by (simp_all add: int_defs ascii_def)

theorem hhmm_malformed_rejected_witness:
  "hhmm_to_index (Some (ascii ''1x:00'')) = Inl (ValueError (ascii ''time must be numeric HH:MM''))
   \<and> parse_hhmm (Some (ascii ''25:00'')) = Inl (ValueError (ascii ''hour must be 0..23''))
   \<and> parse_hhmm (Some (ascii ''12:61'')) = Inl (ValueError (ascii ''minute must be 0..59''))
   \<and> parse_hhmm (Some (ascii ''noon'')) = Inl (ValueError (ascii ''time must be in HH:MM format''))
   \<and> (\<exists>a b h m. py_split 58 (py_strip (ascii '' 03:59 '')) = [a, b] \<and> py_int a = Some h \<and>
         py_int b = Some m \<and> 0 \<le> h \<and> h \<le> 23 \<and> 0 \<le> m \<and> m \<le> 59 \<and> time_to_index h m = Inr 2)"
proof -
  have a: "py_split 58 (py_strip (ascii ''1x:00'')) = [ascii ''1x'', ascii ''00''] \<and>
      (py_int (ascii ''1x'') = None \<or> py_int (ascii ''00'') = None)"
    by (simp add: split_1x int_more)
  have b: "py_split 58 (py_strip (ascii ''25:00'')) = [ascii ''25'', ascii ''00''] \<and>
      py_int (ascii ''25'') = Some 25 \<and> py_int (ascii ''00'') = Some 0 \<and> ((25::int) < 0 \<or> 23 < (25::int))"
    by (simp add: split_2500 int_examples)
  have c: "py_split 58 (py_strip (ascii ''12:61'')) = [ascii ''12'', ascii ''61''] \<and>
      py_int (ascii ''12'') = Some 12 \<and> py_int (ascii ''61'') = Some 61 \<and>
      (0::int) \<le> 12 \<and> (12::int) \<le> 23 \<and> ((61::int) < 0 \<or> 59 < (61::int))"
    by (simp add: split_1261 int_examples)
  have d: "length (py_split 58 (py_strip (ascii ''noon''))) \<noteq> 2"
    by (simp add: split_noon)
  have e: "hhmm_to_index (Some (ascii '' 03:59 '')) = Inr 2"
    by (simp add: hhmm_to_index_def parse_hhmm_def split_0359 int_more time_to_index_def)
  note t1 = hhmm_malformed_rejected [THEN conjunct1, rule_format]
  note t2 = hhmm_malformed_rejected [THEN conjunct2, THEN conjunct1, rule_format]
  note t3 = hhmm_malformed_rejected [THEN conjunct2, THEN conjunct2, THEN conjunct1, rule_format]
  note t4 = hhmm_malformed_rejected [THEN conjunct2, THEN conjunct2, THEN conjunct2,
      THEN conjunct1, rule_format]
  note t5 = hhmm_malformed_rejected [THEN conjunct2, THEN conjunct2, THEN conjunct2,
      THEN conjunct2, THEN conjunct1, rule_format]
  note t6 = hhmm_malformed_rejected [THEN conjunct2, THEN conjunct2, THEN conjunct2,
      THEN conjunct2, THEN conjunct2, THEN conjunct1, rule_format]
  have "hhmm_to_index (Some (ascii ''1x:00'')) = Inl (ValueError (ascii ''time must be numeric HH:MM''))"
    by (rule t5 [OF t2 [OF a]])
  moreover have "parse_hhmm (Some (ascii ''25:00'')) = Inl (ValueError (ascii ''hour must be 0..23''))"
    by (rule t3 [OF b])
  moreover have "parse_hhmm (Some (ascii ''12:61'')) = Inl (ValueError (ascii ''minute must be 0..59''))"
    by (rule t4 [OF c])
  moreover have "parse_hhmm (Some (ascii ''noon'')) = Inl (ValueError (ascii ''time must be in HH:MM format''))"
    by (rule t1 [OF d])
  moreover have "\<exists>a b h m. py_split 58 (py_strip (ascii '' 03:59 '')) = [a, b] \<and> py_int a = Some h \<and>
         py_int b = Some m \<and> 0 \<le> h \<and> h \<le> 23 \<and> 0 \<le> m \<and> m \<le> 59 \<and> time_to_index h m = Inr 2"
    by (rule t6 [OF e])
  ultimately show ?thesis
    by (intro conjI)
qed

section \<open>Properties of the text renderers\<close>

lemma flag_txt_spec:
  "flag_txt (palace_flags x y) = spec_flag_suffix (py_truthy x) (py_truthy y)"
  by (simp add: flag_txt_def palace_flags_def spec_flag_suffix_def ascii_def)

lemma spec_flag_suffix_none: "spec_flag_suffix False False = []"
  by (simp add: spec_flag_suffix_def)

lemma render_text_suffix:
  "render_text_palace_line p =
   render_text_palace_line (p(''isBodyPalace'' := None, ''isOriginalPalace'' := None)) @
   spec_flag_suffix (py_truthy (dict_get p ''isBodyPalace'' PNone))
     (py_truthy (dict_get p ''isOriginalPalace'' PNone))"
  by (simp add: render_text_palace_line_def dict_get_def flag_txt_spec spec_flag_suffix_none Let_def)

lemma py_rstrip_keep:
  "s \<noteq> [] \<Longrightarrow> \<not> py_isspace (last s) \<Longrightarrow> py_rstrip (b @ s) = b @ s"
  by (cases s rule: rev_cases) (simp_all add: py_rstrip_def)

lemma spec_flag_suffix_last:
  "spec_flag_suffix x y \<noteq> [] \<Longrightarrow> \<not> py_isspace (last (spec_flag_suffix x y))"
  by (simp add: spec_flag_suffix_def ascii_def py_isspace_def split: if_splits)

lemma render_chart_by_base:
  "render_chart_palace_line p lang =
     (case chart_line_base p lang of
        Inl e \<Rightarrow> Inl e
      | Inr base \<Rightarrow> Inr (py_rstrip (base @
          spec_flag_suffix (py_truthy (getattr (is_body_palace p) (PBool False)))
            (py_truthy (getattr (is_original_palace p) (PBool False))))))"
  by (simp add: render_chart_palace_line_def chart_line_base_def Let_def flag_txt_spec
      split: sum.splits)

lemma chart_line_base_flags:
  "chart_line_base (p\<lparr>is_body_palace := x, is_original_palace := y\<rparr>) lang = chart_line_base p lang"
  by (simp add: chart_line_base_def Let_def cong: sum.case_cong)

lemma render_chart_suffix:
  assumes "render_chart_palace_line p lang = Inr line"
  shows "\<exists>base. render_chart_palace_line (p\<lparr>is_body_palace := None, is_original_palace := None\<rparr>) lang
           = Inr (py_rstrip base)
         \<and> line = py_rstrip (base @ spec_flag_suffix (py_truthy (getattr (is_body_palace p) (PBool False)))
                     (py_truthy (getattr (is_original_palace p) (PBool False))))"
proof -
  obtain base where base: "chart_line_base p lang = Inr base"
    using assms by (cases "chart_line_base p lang") (simp_all add: render_chart_by_base)
  have "render_chart_palace_line (p\<lparr>is_body_palace := None, is_original_palace := None\<rparr>) lang
      = Inr (py_rstrip base)"
    by (simp add: render_chart_by_base chart_line_base_flags base getattr_def spec_flag_suffix_none)
  moreover have "line = py_rstrip (base @ spec_flag_suffix (py_truthy (getattr (is_body_palace p) (PBool False)))
                     (py_truthy (getattr (is_original_palace p) (PBool False))))"
    using assms by (simp add: render_chart_by_base base)
  ultimately show ?thesis by blast
qed

lemma spec_flag_suffix_cases:
  "spec_flag_suffix True False = ascii '' [body]''"
  "spec_flag_suffix False True = ascii '' [origin]''"
  "spec_flag_suffix True True = ascii '' [body origin]''"
  by (simp_all add: spec_flag_suffix_def)

lemma render_chart_flagless:
  "render_chart_palace_line (p\<lparr>is_body_palace := None, is_original_palace := None\<rparr>) lang =
     (case chart_line_base p lang of
        Inl e \<Rightarrow> Inl e
      | Inr base \<Rightarrow> Inr (py_rstrip base))"
  by (simp add: render_chart_by_base chart_line_base_flags getattr_def spec_flag_suffix_none
      split: sum.splits)

lemma render_chart_from_flagless:
  assumes "render_chart_palace_line (p\<lparr>is_body_palace := None, is_original_palace := None\<rparr>) lang
             = Inr l0"
  shows "\<exists>base. l0 = py_rstrip base
         \<and> render_chart_palace_line p lang = Inr (py_rstrip (base @
               spec_flag_suffix (py_truthy (getattr (is_body_palace p) (PBool False)))
                 (py_truthy (getattr (is_original_palace p) (PBool False)))))
         \<and> (spec_flag_suffix (py_truthy (getattr (is_body_palace p) (PBool False)))
                 (py_truthy (getattr (is_original_palace p) (PBool False))) \<noteq> [] \<longrightarrow>
             render_chart_palace_line p lang = Inr (base @
               spec_flag_suffix (py_truthy (getattr (is_body_palace p) (PBool False)))
                 (py_truthy (getattr (is_original_palace p) (PBool False)))))"
proof -
  let ?sfx = "spec_flag_suffix (py_truthy (getattr (is_body_palace p) (PBool False)))
                 (py_truthy (getattr (is_original_palace p) (PBool False)))"
  obtain base where base: "chart_line_base p lang = Inr base"
    using assms by (cases "chart_line_base p lang") (simp_all add: render_chart_flagless)
  have l0: "l0 = py_rstrip base"
    using assms by (simp add: render_chart_flagless base)
  have line: "render_chart_palace_line p lang = Inr (py_rstrip (base @ ?sfx))"
    by (simp add: render_chart_by_base base)
  have "?sfx \<noteq> [] \<longrightarrow> py_rstrip (base @ ?sfx) = base @ ?sfx"
    using py_rstrip_keep [of ?sfx base] spec_flag_suffix_last [of _ _] by auto
  with l0 line show ?thesis
    by auto
qed

lemma render_chart_flagless_raises:
  assumes "render_chart_palace_line (p\<lparr>is_body_palace := None, is_original_palace := None\<rparr>) lang
             = Inl e"
  shows "render_chart_palace_line p lang = Inl e"
proof -
  have "chart_line_base p lang = Inl e"
    using assms by (cases "chart_line_base p lang") (simp_all add: render_chart_flagless)
  then show ?thesis
    by (simp add: render_chart_by_base)
qed

text \<open>
  Claim C7. In both text renderers the line of a palace ends with its flags: the line is
  the line of the same palace without flags, followed by \<open> [body]\<close> when only the body
  flag is true, \<open> [origin]\<close> when only the origin flag is true, \<open> [body origin]\<close> when
  both are, and by nothing when neither is (never \<open> []\<close>). \<open>render_text\<close> appends the
  suffix to the line as it is. \<open>render_chart\<close> strips trailing white space from the
  whole line, which leaves a suffix that is not empty in place: whenever the palace
  without its flags is rendered, as some \<open>base\<close> stripped, the palace with its flags is
  rendered too, as \<open>base\<close> followed by the suffix; and when the palace without its flags
  raises, so does the palace with them.
\<close>

theorem palace_flag_suffix:
  "(\<forall>p. render_text_palace_line p =
      render_text_palace_line (p(''isBodyPalace'' := None, ''isOriginalPalace'' := None)) @
      spec_flag_suffix (py_truthy (dict_get p ''isBodyPalace'' PNone))
        (py_truthy (dict_get p ''isOriginalPalace'' PNone)))
   \<and> (\<forall>p lang l0.
        render_chart_palace_line (p\<lparr>is_body_palace := None, is_original_palace := None\<rparr>) lang
          = Inr l0 \<longrightarrow>
        (\<exists>base. l0 = py_rstrip base
           \<and> render_chart_palace_line p lang = Inr (py_rstrip (base @
               spec_flag_suffix (py_truthy (getattr (is_body_palace p) (PBool False)))
                 (py_truthy (getattr (is_original_palace p) (PBool False)))))
           \<and> (spec_flag_suffix (py_truthy (getattr (is_body_palace p) (PBool False)))
                 (py_truthy (getattr (is_original_palace p) (PBool False))) \<noteq> [] \<longrightarrow>
               render_chart_palace_line p lang = Inr (base @
                 spec_flag_suffix (py_truthy (getattr (is_body_palace p) (PBool False)))
                   (py_truthy (getattr (is_original_palace p) (PBool False)))))))
   \<and> (\<forall>p lang e.
        render_chart_palace_line (p\<lparr>is_body_palace := None, is_original_palace := None\<rparr>) lang
          = Inl e \<longrightarrow>
        render_chart_palace_line p lang = Inl e)
   \<and> spec_flag_suffix True False = ascii '' [body]''
   \<and> spec_flag_suffix False True = ascii '' [origin]''
   \<and> spec_flag_suffix True True = ascii '' [body origin]''
   \<and> spec_flag_suffix False False = []"
proof (intro conjI allI impI)
  fix p
  show "render_text_palace_line p =
      render_text_palace_line (p(''isBodyPalace'' := None, ''isOriginalPalace'' := None)) @
      spec_flag_suffix (py_truthy (dict_get p ''isBodyPalace'' PNone))
        (py_truthy (dict_get p ''isOriginalPalace'' PNone))"
    by (rule render_text_suffix)
next
  fix p lang l0
  assume "render_chart_palace_line (p\<lparr>is_body_palace := None, is_original_palace := None\<rparr>) lang
          = Inr l0"
  then show "\<exists>base. l0 = py_rstrip base
           \<and> render_chart_palace_line p lang = Inr (py_rstrip (base @
               spec_flag_suffix (py_truthy (getattr (is_body_palace p) (PBool False)))
                 (py_truthy (getattr (is_original_palace p) (PBool False)))))
           \<and> (spec_flag_suffix (py_truthy (getattr (is_body_palace p) (PBool False)))
                 (py_truthy (getattr (is_original_palace p) (PBool False))) \<noteq> [] \<longrightarrow>
               render_chart_palace_line p lang = Inr (base @
                 spec_flag_suffix (py_truthy (getattr (is_body_palace p) (PBool False)))
                   (py_truthy (getattr (is_original_palace p) (PBool False)))))"
    by (rule render_chart_from_flagless)
next
  fix p lang e
  assume "render_chart_palace_line (p\<lparr>is_body_palace := None, is_original_palace := None\<rparr>) lang
          = Inl e"
  then show "render_chart_palace_line p lang = Inl e"
    by (rule render_chart_flagless_raises)
qed (rule spec_flag_suffix_cases spec_flag_suffix_none)+

lemma sample_entry_plain:
  "render_text_palace_line (sample_entry(''isBodyPalace'' := None, ''isOriginalPalace'' := None))
   = ascii ''- soulPalace jiazi''"
  by (simp add: render_text_palace_line_def sample_entry_def dict_get_def palace_flags_def
      flag_txt_def ascii_def py_strip_def py_lstrip_def py_rstrip_def py_isspace_def)

lemma sample_entry_flags:
  "py_truthy (dict_get sample_entry ''isBodyPalace'' PNone) = True"
  "py_truthy (dict_get sample_entry ''isOriginalPalace'' PNone) = False"
  by (simp_all add: sample_entry_def dict_get_def)

lemma sample_palace_plain:
  "render_chart_palace_line
     (sample_palace\<lparr>is_body_palace := None, is_original_palace := None\<rparr>) (ascii ''en-US'')
   = Inr (ascii ''- Life'')"
  by (simp add: render_chart_palace_line_def sample_palace_def py_t_def getattr_def palace_flags_def
      flag_txt_def ascii_def py_strip_def py_lstrip_def py_rstrip_def py_isspace_def)

lemma sample_palace_flags:
  "py_truthy (getattr (is_body_palace sample_palace) (PBool False)) = True"
  "py_truthy (getattr (is_original_palace sample_palace) (PBool False)) = False"
  by (simp_all add: sample_palace_def getattr_def)

theorem palace_flag_suffix_witness:
  "render_text_palace_line sample_entry = ascii ''- soulPalace jiazi [body]''
   \<and> (\<exists>base. ascii ''- Life'' = py_rstrip base
        \<and> render_chart_palace_line sample_palace (ascii ''en-US'') = Inr (base @ ascii '' [body]''))"
proof -
  note t1 = palace_flag_suffix [THEN conjunct1, rule_format]
  note t2 = palace_flag_suffix [THEN conjunct2, THEN conjunct1, rule_format]
  note t3 = palace_flag_suffix [THEN conjunct2, THEN conjunct2, THEN conjunct2, THEN conjunct1]
  have "render_text_palace_line sample_entry = ascii ''- soulPalace jiazi'' @ ascii '' [body]''"
    using t1 [of sample_entry] by (simp add: sample_entry_plain sample_entry_flags t3)
  then have a: "render_text_palace_line sample_entry = ascii ''- soulPalace jiazi [body]''"
    by (simp add: ascii_def)
  have ne: "ascii '' [body]'' \<noteq> []"
    by (simp add: ascii_def)
  have b: "\<exists>base. ascii ''- Life'' = py_rstrip base
        \<and> render_chart_palace_line sample_palace (ascii ''en-US'') = Inr (base @ ascii '' [body]'')"
    using t2 [OF sample_palace_plain] ne by (simp add: sample_palace_flags t3) blast
  from a b show ?thesis by (rule conjI)
qed

end
